theory Spec2Isabelle
  imports Main "HOL-Library.Sublist"
begin

section \<open>The WSDOT/WSF client: fetch-strategy selection and the fetch factory\<close>

text \<open>
  A shallow embedding of \<^verbatim>\<open>selectFetchStrategy.ts\<close> (environment detection, strategy
  selection) and of the fetch factory (\<^verbatim>\<open>createFetchFactory\<close>, \<^verbatim>\<open>getApiKeyParam\<close>,
  \<^verbatim>\<open>interpolateParams\<close>, \<^verbatim>\<open>buildUrl\<close>, \<^verbatim>\<open>substituteParam\<close>).
  A JavaScript string is a \<^typ>\<open>string\<close>, the list of its characters. An exception is
  a value of type \<open>error\<close>, and a function that may throw returns \<open>error + 'a\<close>.
\<close>

subsection \<open>String primitives of the language\<close>

text \<open>
  \<^verbatim>\<open>s.indexOf(p)\<close>: the least position at which \<open>p\<close> occurs in \<open>s\<close>; \<open>None\<close> is the
  \<open>-1\<close> of JavaScript. \<^verbatim>\<open>s.includes(p)\<close> holds when there is such a position.
\<close>

fun indexOf :: "string \<Rightarrow> string \<Rightarrow> nat option" where
  "indexOf [] p = (if p = [] then Some 0 else None)"
| "indexOf (c # cs) p =
     (if prefix p (c # cs) then Some 0 else map_option Suc (indexOf cs p))"

definition includes_str :: "string \<Rightarrow> string \<Rightarrow> bool" where
  "includes_str s p = (indexOf s p \<noteq> None)"

text \<open>
  The replacement text of \<^verbatim>\<open>String.prototype.replace\<close> (GetSubstitution of ECMAScript)
  for a string pattern, which has no capture groups: \<^verbatim>\<open>$$\<close> stands for a dollar sign,
  \<^verbatim>\<open>$&\<close> for the matched text, \<^verbatim>\<open>$`\<close> for the text before the match and \<^verbatim>\<open>$'\<close> for
  the text after it. A dollar sign before any other character (a digit and \<^verbatim>\<open><\<close>
  included, as there are no captures) or at the end stands for itself.
\<close>

fun getSubstitution :: "string \<Rightarrow> string \<Rightarrow> string \<Rightarrow> string \<Rightarrow> string" where
  "getSubstitution matched preceding following [] = []"
| "getSubstitution matched preceding following [c] = [c]"
| "getSubstitution matched preceding following (c # d # rest) =
     (if c = CHR ''$'' then
        (if d = CHR ''$'' then CHR ''$'' # getSubstitution matched preceding following rest
         else if d = CHR ''&'' then matched @ getSubstitution matched preceding following rest
         else if d = CHR 0x60 then preceding @ getSubstitution matched preceding following rest
         else if d = CHR 0x27 then following @ getSubstitution matched preceding following rest
         else CHR ''$'' # getSubstitution matched preceding following (d # rest))
      else c # getSubstitution matched preceding following (d # rest))"

text \<open>
  \<^verbatim>\<open>s.replace(p, r)\<close> with a string pattern \<open>p\<close>: only the first occurrence of \<open>p\<close> is
  replaced, by the substitution of \<open>r\<close>; without an occurrence \<open>s\<close> is returned.
\<close>

definition replace :: "string \<Rightarrow> string \<Rightarrow> string \<Rightarrow> string" where
  "replace s p r =
     (case indexOf s p of
        None \<Rightarrow> s
      | Some pos \<Rightarrow>
          (let preceding = take pos s;
               following = drop (pos + length p) s
           in preceding @ getSubstitution p preceding following r @ following))"

text \<open>\<^verbatim>\<open>xs.join(sep)\<close> on an array of strings.\<close>

fun join :: "string list \<Rightarrow> string \<Rightarrow> string" where
  "join [] sep = []"
| "join [x] sep = x"
| "join (x # y # ys) sep = x @ sep @ join (y # ys) sep"

text \<open>
  \<^verbatim>\<open>s.match(/\{[^}]+\}/g)\<close>: the matches of the regular expression from left to right,
  each search resuming where the last match ended. At an opening brace the greedy class
  \<^verbatim>\<open>[^}]+\<close> takes every character up to the next closing brace; the match succeeds when
  it took at least one character and a closing brace follows. The empty list is the
  \<^verbatim>\<open>null\<close> that \<^verbatim>\<open>match\<close> returns when nothing matches.
\<close>

function matchPlaceholders :: "string \<Rightarrow> string list" where
  "matchPlaceholders [] = []"
| "matchPlaceholders (c # cs) =
     (if c = CHR ''{'' then
        (let body = takeWhile (\<lambda>x. x \<noteq> CHR ''}'') cs;
             rest = dropWhile (\<lambda>x. x \<noteq> CHR ''}'') cs
         in if body \<noteq> [] \<and> rest \<noteq> []
            then (CHR ''{'' # body @ ''}'') # matchPlaceholders (tl rest)
            else matchPlaceholders cs)
      else matchPlaceholders cs)"
  by pat_completeness auto
termination
proof (relation "measure length")
  show "wf (measure length)" by simp
next
  fix c :: char and cs body rest :: string
  assume "rest = dropWhile (\<lambda>x. x \<noteq> CHR ''}'') cs"
  then have "length (tl rest) \<le> length cs"
    using length_dropWhile_le [of "\<lambda>x. x \<noteq> CHR ''}''" cs] by simp
  then show "(tl rest, c # cs) \<in> measure length" by simp
qed simp_all

text \<open>Decimal digits, and \<^verbatim>\<open>String(n)\<close> for an integer.\<close>

definition digit :: "nat \<Rightarrow> char" where
  "digit n = ''0123456789'' ! (n mod 10)"

fun show_nat :: "nat \<Rightarrow> string" where
  "show_nat n = (if n < 10 then [digit n] else show_nat (n div 10) @ [digit (n mod 10)])"

declare show_nat.simps [simp del]

definition show_int :: "int \<Rightarrow> string" where
  "show_int i = (if i < 0 then CHR ''-'' # show_nat (nat (- i)) else show_nat (nat i))"

text \<open>\<^verbatim>\<open>s.padStart(n, "0")\<close>: zeros in front up to the width \<open>n\<close>; a longer \<open>s\<close> is kept.\<close>

definition padStart :: "nat \<Rightarrow> string \<Rightarrow> string" where
  "padStart n s = replicate (n - length s) CHR ''0'' @ s"

subsection \<open>Environment detection and strategy selection\<close>

text \<open>
  The ambient state that \<^verbatim>\<open>selectFetchStrategy.ts\<close> reads. \<open>process\<close> is \<open>None\<close> when
  \<^verbatim>\<open>typeof process\<close> is \<^verbatim>\<open>"undefined"\<close>, and otherwise holds \<^verbatim>\<open>process.env\<close>, a map from
  variable names to strings. \<open>window\<close> is \<open>None\<close> when \<^verbatim>\<open>typeof window\<close> is
  \<^verbatim>\<open>"undefined"\<close>; \<open>navigator_userAgent\<close> is the value of
  \<^verbatim>\<open>window.navigator?.userAgent\<close>, \<open>None\<close> when it is \<^verbatim>\<open>undefined\<close>. \<open>document\<close> says that
  \<^verbatim>\<open>typeof document\<close> is not \<^verbatim>\<open>"undefined"\<close>.
\<close>

record Window =
  navigator_userAgent :: "string option"

record Globals =
  process :: "(string \<Rightarrow> string option) option"
  window :: "Window option"
  document :: bool

datatype FetchStrategy = fetchJsonp | fetchNative

definition isWebEnvironment :: "Globals \<Rightarrow> bool" where
  "isWebEnvironment g = (window g \<noteq> None \<and> document g)"

definition isTestEnvironment :: "Globals \<Rightarrow> bool" where
  "isTestEnvironment g =
     (if (case process g of
            None \<Rightarrow> False
          | Some env \<Rightarrow> env ''NODE_ENV'' = Some ''test'' \<or> env ''VITEST_WORKER_ID'' \<noteq> None)
      then True
      else (case window g of
              None \<Rightarrow> False
            | Some w \<Rightarrow>
                (case navigator_userAgent w of
                   None \<Rightarrow> False
                 | Some userAgent \<Rightarrow>
                     if userAgent = [] then False
                     else includes_str userAgent ''jsdom'' \<or> includes_str userAgent ''happy-dom'')))"

text \<open>The classification is the string the source returns.\<close>

definition getEnvironmentType :: "Globals \<Rightarrow> string" where
  "getEnvironmentType g =
     (if isTestEnvironment g then ''test''
      else if isWebEnvironment g then ''web''
      else ''server'')"

text \<open>
  The body of \<^verbatim>\<open>selectFetchStrategy\<close> after its first line, for any value of the local
  \<^verbatim>\<open>environment\<close>: the override test, then the \<^verbatim>\<open>switch\<close> with its \<^verbatim>\<open>default\<close> branch.
\<close>

definition selectFetchStrategy_for :: "string \<Rightarrow> Globals \<Rightarrow> FetchStrategy" where
  "selectFetchStrategy_for environment g =
     (if (case process g of None \<Rightarrow> False | Some env \<Rightarrow> env ''FORCE_JSONP'' = Some ''true'')
      then fetchJsonp
      else if environment = ''test'' \<or> environment = ''server'' then fetchNative
      else if environment = ''web'' then fetchJsonp
      else fetchNative)"

definition selectFetchStrategy :: "Globals \<Rightarrow> FetchStrategy" where
  "selectFetchStrategy g = selectFetchStrategy_for (getEnvironmentType g) g"

subsection \<open>Parameter values\<close>

text \<open>
  A \<^verbatim>\<open>Date\<close> by its local calendar fields: \<^verbatim>\<open>getFullYear()\<close>, \<^verbatim>\<open>getMonth()\<close> (January is
  0) and \<^verbatim>\<open>getDate()\<close> (the day of the month).
\<close>

record Date =
  getFullYear :: nat
  getMonth :: nat
  getDate :: nat

text \<open>
  The parameter values, by what \<^verbatim>\<open>substituteParam\<close> reads of them: whether the value is
  a \<^verbatim>\<open>Date\<close>, and otherwise the text of \<^verbatim>\<open>String(value)\<close>. \<open>JNumber n\<close> is the number with
  the integer value \<open>n\<close>, of a magnitude below \<open>10 ^ 21\<close>: these are the numbers that
  \<^verbatim>\<open>String\<close> prints as decimal integers. Any other value (a fraction, a number from
  \<open>10 ^ 21\<close> on, which is printed with an exponent, \<^verbatim>\<open>NaN\<close>, \<^verbatim>\<open>undefined\<close>, an array, an
  object) is \<open>JOther t\<close>, with \<open>t\<close> the text that \<^verbatim>\<open>String\<close> gives for it.
\<close>

datatype JsonWithDates =
    JString string
  | JNumber int
  | JBoolean bool
  | JNull
  | JDate Date
  | JOther string

text \<open>
  Modelled from the spec: \<^verbatim>\<open>jsDateToYyyyMmDd\<close> is imported from \<^verbatim>\<open>../parsing\<close>, which is
  not among the sources. The specification has a date "formatted as YYYY-MM-DD
  (zero-padded, using the date's calendar fields, not its ISO/UTC rendering)".
\<close>

definition jsDateToYyyyMmDd :: "Date \<Rightarrow> string" where
  "jsDateToYyyyMmDd d =
     padStart 4 (show_nat (getFullYear d)) @ ''-'' @
     padStart 2 (show_nat (getMonth d + 1)) @ ''-'' @
     padStart 2 (show_nat (getDate d))"

text \<open>
  \<^verbatim>\<open>value instanceof Date ? jsDateToYyyyMmDd(value) : String(value)\<close>, by cases on the
  value. The text of \<open>JNumber n\<close> is given for the magnitudes below \<open>10 ^ 21\<close> only and
  left unspecified beyond, where the number is a \<open>JOther\<close>.
\<close>

fun stringValue :: "JsonWithDates \<Rightarrow> string" where
  "stringValue (JDate d) = jsDateToYyyyMmDd d"
| "stringValue (JString s) = s"
| "stringValue (JNumber n) = (if \<bar>n\<bar> < 10 ^ 21 then show_int n else undefined)"
| "stringValue (JBoolean b) = (if b then ''true'' else ''false'')"
| "stringValue JNull = ''null''"
| "stringValue (JOther t) = t"

subsection \<open>The fetch factory\<close>

text \<open>\<^verbatim>\<open>throw new Error(message)\<close>.\<close>

datatype error = Error string

definition getApiKeyParam :: "string \<Rightarrow> string" where
  "getApiKeyParam apiPath =
     (let isWsf = includes_str apiPath ''/ferries/''
      in if isWsf then ''apiaccesscode'' else ''AccessCode'')"

definition placeholder :: "string \<Rightarrow> string" where
  "placeholder key = ''{'' @ key @ ''}''"

text \<open>
  The message of the error that \<^verbatim>\<open>substituteParam\<close> throws;
  \<^verbatim>\<open>endpoint.match(...)?.join(", ") || "none"\<close> is \<^verbatim>\<open>"none"\<close> when there is no match (or
  when the joined text is empty).
\<close>

definition availablePlaceholders :: "string \<Rightarrow> string" where
  "availablePlaceholders endpoint =
     (let m = matchPlaceholders endpoint
      in if m = [] then ''none''
         else if join m '', '' = [] then ''none''
         else join m '', '')"

definition mismatchMessage :: "string \<Rightarrow> string \<Rightarrow> string" where
  "mismatchMessage key endpoint =
     ''Parameter '' @ [CHR 0x22] @ key @ [CHR 0x22] @
     '' was provided but placeholder '' @ [CHR 0x22] @ ''{'' @ key @ ''}'' @ [CHR 0x22] @
     '' not found in endpoint template. '' @
     ''Available placeholders: '' @ availablePlaceholders endpoint"

fun substituteParam :: "string \<Rightarrow> string \<times> JsonWithDates \<Rightarrow> error + string" where
  "substituteParam endpoint (key, val) =
     (if \<not> includes_str endpoint (placeholder key)
      then Inl (Error (mismatchMessage key endpoint))
      else Inr (replace endpoint (placeholder key) (stringValue val)))"

text \<open>
  \<^verbatim>\<open>entries.reduce((endpoint, entry) => substituteParam(endpoint, entry), init)\<close>: the
  entries from left to right over the accumulated string; an exception ends the loop.
\<close>

fun reduce :: "(string \<times> JsonWithDates) list \<Rightarrow> string \<Rightarrow> error + string" where
  "reduce [] endpoint = Inr endpoint"
| "reduce (entry # entries) endpoint =
     (case substituteParam endpoint entry of
        Inl e \<Rightarrow> Inl e
      | Inr endpoint' \<Rightarrow> reduce entries endpoint')"

text \<open>
  The parameter object is given by \<^verbatim>\<open>Object.entries(params)\<close>, its own entries in the
  order of enumeration; \<open>None\<close> is an absent (\<^verbatim>\<open>undefined\<close>) parameter object.
\<close>

definition interpolateParams ::
  "string \<Rightarrow> (string \<times> JsonWithDates) list option \<Rightarrow> error + string" where
  "interpolateParams endpointTemplate params =
     (case params of
        None \<Rightarrow> Inr endpointTemplate
      | Some entries \<Rightarrow>
          if length entries = 0 then Inr endpointTemplate
          else reduce entries endpointTemplate)"

text \<open>
  The configuration that \<^verbatim>\<open>configManager\<close> supplies (the module is not among the
  sources): the values of \<^verbatim>\<open>getBaseUrl()\<close> and \<^verbatim>\<open>getApiKey()\<close>.
\<close>

record Config =
  baseUrl :: string
  apiKey :: string

definition buildUrl :: "Config \<Rightarrow> string \<Rightarrow> string \<Rightarrow> string" where
  "buildUrl cfg apiPath endpoint =
     (let apiKeyParam = getApiKeyParam apiPath;
          separator = (if includes_str endpoint ''?'' then ''&'' else ''?'')
      in baseUrl cfg @ apiPath @ endpoint @ separator @ apiKeyParam @ ''='' @ apiKey cfg)"

text \<open>
  A promise by its outcome, and the two ways a call ends: with an exception thrown
  to the caller, or with a returned value.
\<close>

datatype 'a Promise = Fulfilled 'a | Rejected error

datatype 'a completion = Throw error | Return 'a

text \<open>
  The function that \<^verbatim>\<open>createFetch(endpointTemplate)\<close> returns, inside the factory for
  \<open>apiPath\<close>. The client \<open>fetchFn\<close> of \<^verbatim>\<open>createApiClient()\<close> is a parameter: it takes
  the URL and the logging mode and returns a promise, and what it does on the network
  is its effect on a state \<open>'n\<close>. The function is not \<^verbatim>\<open>async\<close>: an exception of
  \<^verbatim>\<open>interpolateParams\<close> leaves it as an exception.
\<close>

definition createFetch ::
  "(string \<Rightarrow> 'l option \<Rightarrow> 'n \<Rightarrow> 'a Promise \<times> 'n) \<Rightarrow> Config \<Rightarrow> string \<Rightarrow> string \<Rightarrow>
   (string \<times> JsonWithDates) list option \<Rightarrow> 'l option \<Rightarrow> 'n \<Rightarrow> 'a Promise completion \<times> 'n" where
  "createFetch fetchFn cfg apiPath endpointTemplate params logMode net =
     (case interpolateParams endpointTemplate params of
        Inl e \<Rightarrow> (Throw e, net)
      | Inr endpoint \<Rightarrow>
          (let url = buildUrl cfg apiPath endpoint;
               (p, net') = fetchFn url logMode net
           in (Return p, net')))"

text \<open>
  A client for the examples: it records the URL it is asked for and rejects with the
  given error, or fulfils with the URL when given none.
\<close>

definition recordingClient ::
  "error option \<Rightarrow> string \<Rightarrow> unit option \<Rightarrow> string list \<Rightarrow> string Promise \<times> string list" where
  "recordingClient failure url logMode net =
     ((case failure of None \<Rightarrow> Fulfilled url | Some e \<Rightarrow> Rejected e), net @ [url])"

section \<open>Properties\<close>

subsection \<open>Searching and replacing\<close>

text \<open>
  \<^verbatim>\<open>includes\<close> is containment as a substring, and \<^verbatim>\<open>indexOf\<close> gives the first place.
\<close>

lemma indexOf_None_iff: "indexOf s p = None \<longleftrightarrow> \<not> sublist p s"
  by (induction s) (auto simp: sublist_Cons_right)

lemma indexOf_Some:
  "indexOf s p = Some n \<Longrightarrow> s = take n s @ p @ drop (n + length p) s"
  by (induction s arbitrary: n) (auto simp: prefix_def split: if_splits)

lemma indexOf_first:
  "indexOf s p = Some n \<Longrightarrow> m < n \<Longrightarrow> \<not> prefix p (drop m s)"
proof (induction s arbitrary: n m)
  case Nil then show ?case by (auto split: if_splits)
next
  case (Cons c cs)
  then show ?case by (cases m) (auto split: if_splits)
qed

lemma includes_str_iff: "includes_str s p \<longleftrightarrow> (\<exists>pre post. s = pre @ p @ post)"
  by (simp add: includes_str_def indexOf_None_iff sublist_def)

lemma includes_str_char: "includes_str s [c] \<longleftrightarrow> c \<in> set s"
proof
  assume "includes_str s [c]"
  then show "c \<in> set s" by (auto simp: includes_str_iff)
next
  assume "c \<in> set s"
  then obtain pre post where "s = pre @ c # post" by (auto simp: in_set_conv_decomp)
  then have "s = pre @ [c] @ post" by simp
  then show "includes_str s [c]" unfolding includes_str_iff by blast
qed



subsection \<open>The loop over the entries\<close>

lemma reduce_append:
  "reduce (xs @ ys) template =
     (case reduce xs template of Inl e \<Rightarrow> Inl e | Inr endpoint \<Rightarrow> reduce ys endpoint)"
  by (induction xs arbitrary: template) (auto split: sum.splits)

lemma reduce_mismatch:
  assumes "reduce before template = Inr endpoint"
    and "\<not> includes_str endpoint (placeholder key)"
  shows "reduce (before @ (key, val) # after) template = Inl (Error (mismatchMessage key endpoint))"
  using assms by (simp add: reduce_append)

lemma reduce_fails_iff:
  "(\<exists>e. reduce entries template = Inl e) \<longleftrightarrow>
   (\<exists>before key val after endpoint.
      entries = before @ (key, val) # after \<and>
      reduce before template = Inr endpoint \<and>
      \<not> includes_str endpoint (placeholder key))"
  (is "?L entries template \<longleftrightarrow> ?R entries template")
proof
  assume "?R entries template"
  then show "?L entries template" using reduce_mismatch by blast
next
  assume "?L entries template"
  then show "?R entries template"
  proof (induction entries arbitrary: template)
    case Nil
    then show ?case by simp
  next
    case (Cons entry entries)
    obtain key val where entry: "entry = (key, val)" by (cases entry)
    show ?case
    proof (cases "includes_str template (placeholder key)")
      case False
      have "entry # entries = [] @ (key, val) # entries" using entry by simp
      moreover have "reduce [] template = Inr template" by simp
      ultimately show ?thesis using False by blast
    next
      case True
      define endpoint where "endpoint = replace template (placeholder key) (stringValue val)"
      have step: "substituteParam template entry = Inr endpoint"
        using True entry endpoint_def by simp
      with Cons.prems have "\<exists>e. reduce entries endpoint = Inl e" by simp
      then obtain before k v after s where
        split: "entries = before @ (k, v) # after" and
        ok: "reduce before endpoint = Inr s" and
        bad: "\<not> includes_str s (placeholder k)"
        using Cons.IH by blast
      have "entry # entries = (entry # before) @ (k, v) # after" using split by simp
      moreover have "reduce (entry # before) template = Inr s" using step ok by simp
      ultimately show ?thesis using bad by blast
    qed
  qed
qed

subsection \<open>The placeholders listed in the message\<close>

lemma matchPlaceholders_literal:
  "CHR ''{'' \<notin> set lit \<Longrightarrow> matchPlaceholders (lit @ s) = matchPlaceholders s"
  by (induction lit) auto

lemma matchPlaceholders_placeholder:
  assumes "name \<noteq> []" and "CHR ''}'' \<notin> set name"
  shows "matchPlaceholders (placeholder name @ s) = placeholder name # matchPlaceholders s"
proof -
  have tw: "takeWhile (\<lambda>x. x \<noteq> CHR ''}'') (name @ CHR ''}'' # s) = name"
    using assms(2) by (induction name) auto
  have dw: "dropWhile (\<lambda>x. x \<noteq> CHR ''}'') (name @ CHR ''}'' # s) = CHR ''}'' # s"
    using assms(2) by (induction name) auto
  have "placeholder name @ s = CHR ''{'' # (name @ CHR ''}'' # s)"
    by (simp add: placeholder_def)
  then show ?thesis using assms(1) tw dw by (simp add: placeholder_def)
qed

text \<open>
  In a string made of literal pieces without an opening brace and of placeholders with
  a name that is not empty and has no closing brace, the matches are these placeholders.
\<close>

lemma matchPlaceholders_segments:
  assumes "\<forall>(lit, name) \<in> set segs. CHR ''{'' \<notin> set lit \<and> name \<noteq> [] \<and> CHR ''}'' \<notin> set name"
    and "CHR ''{'' \<notin> set tail"
  shows "matchPlaceholders (concat (map (\<lambda>(lit, name). lit @ placeholder name) segs) @ tail) =
           map (\<lambda>(lit, name). placeholder name) segs"
  using assms
proof (induction segs)
  case Nil
  then show ?case using matchPlaceholders_literal [of tail "[]"] by simp
next
  case (Cons seg segs)
  obtain lit name where seg: "seg = (lit, name)" by (cases seg)
  with Cons.prems have lit: "CHR ''{'' \<notin> set lit" and name: "name \<noteq> []" "CHR ''}'' \<notin> set name"
    by auto
  have "matchPlaceholders (lit @ placeholder name @ concat (map (\<lambda>(lit, name). lit @ placeholder name) segs) @ tail)
        = placeholder name # matchPlaceholders (concat (map (\<lambda>(lit, name). lit @ placeholder name) segs) @ tail)"
    using lit name by (simp add: matchPlaceholders_literal matchPlaceholders_placeholder)
  then show ?case using Cons seg by simp
qed

lemma matchPlaceholders_nonempty:
  "x \<in> set (matchPlaceholders s) \<Longrightarrow> x \<noteq> []"
  by (induction s rule: matchPlaceholders.induct) (auto simp: Let_def split: if_splits)

lemma join_nonempty:
  "m \<noteq> [] \<Longrightarrow> \<forall>x \<in> set m. x \<noteq> [] \<Longrightarrow> join m sep \<noteq> []"
  by (induction m sep rule: join.induct) auto

lemma availablePlaceholders_eq:
  "availablePlaceholders endpoint =
     (if matchPlaceholders endpoint = [] then ''none''
      else join (matchPlaceholders endpoint) '', '')"
  using join_nonempty [of "matchPlaceholders endpoint" "'', ''"] matchPlaceholders_nonempty
  by (auto simp: availablePlaceholders_def Let_def)

subsection \<open>Decimal digits and dates\<close>














subsection \<open>The claims\<close>

text \<open>
  C1, as the code has it. The call fails exactly when, at the turn of some supplied
  parameter, its placeholder is missing from the string reached so far. A placeholder
  of the template that no supplied parameter names is not looked for: it raises no
  error.
\<close>

theorem interpolateParams_fails_iff:
  "(\<exists>e. interpolateParams template params = Inl e) \<longleftrightarrow>
   (\<exists>before key val after endpoint.
      params = Some (before @ (key, val) # after) \<and>
      reduce before template = Inr endpoint \<and>
      \<not> includes_str endpoint (placeholder key))"
proof (cases params)
  case None
  then show ?thesis by (simp add: interpolateParams_def)
next
  case (Some entries)
  have "interpolateParams template (Some entries) = reduce entries template"
    by (cases entries) (simp_all add: interpolateParams_def)
  then show ?thesis using Some reduce_fails_iff [of entries template] by simp
qed

text \<open>
  C1 as stated fails: \<^verbatim>\<open>{tripDate}\<close> occurs in the template and has no parameter, and
  the call returns a string that still has it; so does a call without parameters.
\<close>

theorem interpolateParams_unsatisfied_placeholder:
  "interpolateParams ''/schedule/{tripDate}/{routeId}'' (Some [(''routeId'', JNumber 5)]) =
     Inr ''/schedule/{tripDate}/5'' \<and>
   includes_str ''/schedule/{tripDate}/{routeId}'' (placeholder ''tripDate'') \<and>
   ''tripDate'' \<notin> set (map fst [(''routeId'', JNumber 5)]) \<and>
   includes_str ''/schedule/{tripDate}/5'' (placeholder ''tripDate'') \<and>
   interpolateParams ''/terminals/{tripDate}'' None = Inr ''/terminals/{tripDate}''"
  by code_simp

text \<open>
  C2. When \<^verbatim>\<open>FORCE_JSONP\<close> is the string \<^verbatim>\<open>true\<close> the JSONP strategy is selected,
  whatever the classification; otherwise \<^verbatim>\<open>test\<close> and \<^verbatim>\<open>server\<close> select the native
  strategy, \<^verbatim>\<open>web\<close> the JSONP strategy, and any other value of the classification the
  native strategy.
\<close>

theorem selectFetchStrategy_cases:
  "selectFetchStrategy g =
     (if (\<exists>env. process g = Some env \<and> env ''FORCE_JSONP'' = Some ''true'') then fetchJsonp
      else if getEnvironmentType g = ''test'' then fetchNative
      else if getEnvironmentType g = ''server'' then fetchNative
      else if getEnvironmentType g = ''web'' then fetchJsonp
      else fetchNative) \<and>
   selectFetchStrategy_for environment g =
     (if (\<exists>env. process g = Some env \<and> env ''FORCE_JSONP'' = Some ''true'') then fetchJsonp
      else if environment = ''test'' then fetchNative
      else if environment = ''server'' then fetchNative
      else if environment = ''web'' then fetchJsonp
      else fetchNative)"
  by (cases "process g") (simp_all add: selectFetchStrategy_def selectFetchStrategy_for_def)

text \<open>
  C2 in a test environment, with the override set to \<^verbatim>\<open>true\<close> and to another text.
\<close>

theorem selectFetchStrategy_cases_witness:
  "selectFetchStrategy
     \<lparr>process = Some [''NODE_ENV'' \<mapsto> ''test'', ''FORCE_JSONP'' \<mapsto> ''true''],
      window = None, document = False\<rparr> = fetchJsonp \<and>
   getEnvironmentType
     \<lparr>process = Some [''NODE_ENV'' \<mapsto> ''test'', ''FORCE_JSONP'' \<mapsto> ''true''],
      window = None, document = False\<rparr> = ''test'' \<and>
   selectFetchStrategy
     \<lparr>process = Some [''NODE_ENV'' \<mapsto> ''test'', ''FORCE_JSONP'' \<mapsto> ''TRUE''],
      window = None, document = False\<rparr> = fetchNative"
  using selectFetchStrategy_cases
    [of "\<lparr>process = Some [''NODE_ENV'' \<mapsto> ''test'', ''FORCE_JSONP'' \<mapsto> ''true''],
          window = None, document = False\<rparr>"]
    selectFetchStrategy_cases
    [of "\<lparr>process = Some [''NODE_ENV'' \<mapsto> ''test'', ''FORCE_JSONP'' \<mapsto> ''TRUE''],
          window = None, document = False\<rparr>"]
  by (simp add: getEnvironmentType_def isTestEnvironment_def)

text \<open>
  C3. The classification is \<^verbatim>\<open>test\<close> when \<^verbatim>\<open>NODE_ENV\<close> is the string \<^verbatim>\<open>test\<close>, or
  \<^verbatim>\<open>VITEST_WORKER_ID\<close> is present with any value, or there is a window whose user-agent
  string contains \<^verbatim>\<open>jsdom\<close> or \<^verbatim>\<open>happy-dom\<close>; otherwise \<^verbatim>\<open>web\<close> when a window and a
  document are present; otherwise \<^verbatim>\<open>server\<close>. The signs of a test environment come
  before the presence of the browser globals.
\<close>

theorem getEnvironmentType_classification:
  "getEnvironmentType g =
     (if (\<exists>env. process g = Some env \<and>
            (env ''NODE_ENV'' = Some ''test'' \<or> (\<exists>v. env ''VITEST_WORKER_ID'' = Some v))) \<or>
         (\<exists>w ua. window g = Some w \<and> navigator_userAgent w = Some ua \<and>
            ((\<exists>pre post. ua = pre @ ''jsdom'' @ post) \<or>
             (\<exists>pre post. ua = pre @ ''happy-dom'' @ post)))
      then ''test''
      else if window g \<noteq> None \<and> document g then ''web''
      else ''server'')"
proof -
  have test: "isTestEnvironment g \<longleftrightarrow>
     (\<exists>env. process g = Some env \<and>
            (env ''NODE_ENV'' = Some ''test'' \<or> (\<exists>v. env ''VITEST_WORKER_ID'' = Some v))) \<or>
     (\<exists>w ua. window g = Some w \<and> navigator_userAgent w = Some ua \<and>
            ((\<exists>pre post. ua = pre @ ''jsdom'' @ post) \<or>
             (\<exists>pre post. ua = pre @ ''happy-dom'' @ post)))"
    unfolding isTestEnvironment_def includes_str_iff
    by (auto split: option.splits)
  show ?thesis
    unfolding getEnvironmentType_def isWebEnvironment_def test by simp
qed

text \<open>
  C3 with the browser globals present: the test marker and the empty worker id win.
\<close>

theorem getEnvironmentType_classification_witness:
  "getEnvironmentType
     \<lparr>process = Some [''NODE_ENV'' \<mapsto> ''test''],
      window = Some \<lparr>navigator_userAgent = Some ''Mozilla/5.0''\<rparr>, document = True\<rparr> = ''test'' \<and>
   getEnvironmentType
     \<lparr>process = Some [''VITEST_WORKER_ID'' \<mapsto> ''''],
      window = Some \<lparr>navigator_userAgent = Some ''Mozilla/5.0''\<rparr>, document = True\<rparr> = ''test'' \<and>
   getEnvironmentType
     \<lparr>process = None,
      window = Some \<lparr>navigator_userAgent = Some ''Mozilla/5.0''\<rparr>, document = True\<rparr> = ''web''"
  using getEnvironmentType_classification
    [of "\<lparr>process = Some [''NODE_ENV'' \<mapsto> ''test''],
      window = Some \<lparr>navigator_userAgent = Some ''Mozilla/5.0''\<rparr>, document = True\<rparr>"]
  by (simp add: getEnvironmentType_def isTestEnvironment_def isWebEnvironment_def includes_str_def)

text \<open>
  C4, as the code has it. When, at the turn of a supplied parameter, its placeholder is
  missing from the string reached so far (the template, for the first parameter), the
  call fails with an error. The message names the key and its placeholder and lists the
  matches of \<^verbatim>\<open>\{[^}]+\}\<close> in that string, or \<^verbatim>\<open>none\<close>. Where that string is made of
  literal pieces and placeholders, the list is every placeholder in it.
\<close>

theorem interpolateParams_mismatch:
  assumes "reduce before template = Inr endpoint"
    and "\<not> includes_str endpoint (placeholder key)"
  shows "interpolateParams template (Some (before @ (key, val) # after)) =
           Inl (Error (''Parameter '' @ [CHR 0x22] @ key @ [CHR 0x22] @
                       '' was provided but placeholder '' @ [CHR 0x22] @ placeholder key @ [CHR 0x22] @
                       '' not found in endpoint template. Available placeholders: '' @
                       (if matchPlaceholders endpoint = [] then ''none''
                        else join (matchPlaceholders endpoint) '', ''))) \<and>
         ((\<forall>(lit, name) \<in> set segs. CHR ''{'' \<notin> set lit \<and> name \<noteq> [] \<and> CHR ''}'' \<notin> set name) \<and>
          CHR ''{'' \<notin> set tail \<and>
          endpoint = concat (map (\<lambda>(lit, name). lit @ placeholder name) segs) @ tail \<longrightarrow>
          matchPlaceholders endpoint = map (\<lambda>(lit, name). placeholder name) segs)"
proof -
  have "interpolateParams template (Some (before @ (key, val) # after)) =
          reduce (before @ (key, val) # after) template"
    by (simp add: interpolateParams_def)
  also have "\<dots> = Inl (Error (mismatchMessage key endpoint))"
    using assms by (rule reduce_mismatch)
  finally have msg: "interpolateParams template (Some (before @ (key, val) # after)) =
           Inl (Error (''Parameter '' @ [CHR 0x22] @ key @ [CHR 0x22] @
                       '' was provided but placeholder '' @ [CHR 0x22] @ placeholder key @ [CHR 0x22] @
                       '' not found in endpoint template. Available placeholders: '' @
                       (if matchPlaceholders endpoint = [] then ''none''
                        else join (matchPlaceholders endpoint) '', '')))"
    by (simp add: mismatchMessage_def availablePlaceholders_eq placeholder_def)
  show ?thesis using msg matchPlaceholders_segments [of segs tail] by blast
qed

text \<open>
  C4 at the second of two parameters: the list has \<^verbatim>\<open>{b}\<close> and not \<^verbatim>\<open>{a}\<close>.
\<close>

theorem interpolateParams_mismatch_witness:
  "interpolateParams ''/{a}/{b}'' (Some [(''a'', JString ''1''), (''c'', JString ''X'')]) =
     Inl (Error (''Parameter '' @ [CHR 0x22] @ ''c'' @ [CHR 0x22] @
                 '' was provided but placeholder '' @ [CHR 0x22] @ ''{c}'' @ [CHR 0x22] @
                 '' not found in endpoint template. Available placeholders: {b}''))"
proof -
  have r: "reduce [(''a'', JString ''1'')] ''/{a}/{b}'' = Inr ''/1/{b}''" by code_simp
  have n: "\<not> includes_str ''/1/{b}'' (placeholder ''c'')" by code_simp
  have m: "matchPlaceholders ''/1/{b}'' = [''{b}'']" by code_simp
  show ?thesis
    using interpolateParams_mismatch [OF r n, of "JString ''X''" "[]" "[(''/1/'', ''b'')]" "[]"] m
    by (simp add: placeholder_def)
qed

text \<open>
  C4 as stated fails twice. The key \<^verbatim>\<open>b\<close> is not in the template \<^verbatim>\<open>/{a}\<close>, and the call
  succeeds, since the value of \<^verbatim>\<open>a\<close> brought \<^verbatim>\<open>{b}\<close> in. And the template \<^verbatim>\<open>/{a}/{b}\<close>
  has the placeholders \<^verbatim>\<open>{a}\<close> and \<^verbatim>\<open>{b}\<close>, and the message for the key \<^verbatim>\<open>c\<close> lists
  \<^verbatim>\<open>{b}\<close> alone.
\<close>

theorem interpolateParams_mismatch_counterexample:
  "\<not> includes_str ''/{a}'' (placeholder ''b'') \<and>
   interpolateParams ''/{a}'' (Some [(''a'', JString ''{b}''), (''b'', JString ''X'')]) = Inr ''/X'' \<and>
   matchPlaceholders ''/{a}/{b}'' = [''{a}'', ''{b}''] \<and>
   interpolateParams ''/{a}/{b}'' (Some [(''a'', JString ''1''), (''c'', JString ''X'')]) =
     Inl (Error (''Parameter '' @ [CHR 0x22] @ ''c'' @ [CHR 0x22] @
                 '' was provided but placeholder '' @ [CHR 0x22] @ ''{c}'' @ [CHR 0x22] @
                 '' not found in endpoint template. Available placeholders: {b}''))"
  by code_simp

text \<open>
  C5 at a value with a dollar pattern. The value \<^verbatim>\<open>$&\<close> is a string, its text is
  \<^verbatim>\<open>$&\<close>, and \<^verbatim>\<open>replace\<close> puts the matched placeholder in its place; \<^verbatim>\<open>$$\<close> becomes
  one dollar sign. (For a value without a dollar sign the text is inserted as it is:
  \<open>substituteParam_literal\<close>.)
\<close>

theorem substituteParam_dollar_patterns:
  "stringValue (JString ''$&'') = ''$&'' \<and>
   interpolateParams ''/item/{id}'' (Some [(''id'', JString ''$&'')]) = Inr ''/item/{id}'' \<and>
   interpolateParams ''/item/{id}'' (Some [(''id'', JString ''US$$'')]) = Inr ''/item/US$''"
  by code_simp

text \<open>
  C6. The URL is the base URL, the API path, the endpoint, a separator, the name of
  the key parameter, an equals sign and the key. The separator is \<^verbatim>\<open>&\<close> when the
  endpoint has a question mark and \<^verbatim>\<open>?\<close> otherwise; the name is \<^verbatim>\<open>apiaccesscode\<close>
  when \<^verbatim>\<open>/ferries/\<close> occurs in the API path and \<^verbatim>\<open>AccessCode\<close> otherwise.
\<close>

theorem buildUrl_concatenation:
  "buildUrl cfg apiPath endpoint =
     baseUrl cfg @ apiPath @ endpoint @
     (if CHR ''?'' \<in> set endpoint then ''&'' else ''?'') @
     (if (\<exists>pre post. apiPath = pre @ ''/ferries/'' @ post) then ''apiaccesscode'' else ''AccessCode'') @
     ''='' @ apiKey cfg"
proof -
  have sep: "includes_str endpoint ''?'' \<longleftrightarrow> CHR ''?'' \<in> set endpoint"
    by (rule includes_str_char)
  have wsf: "includes_str apiPath ''/ferries/'' \<longleftrightarrow> (\<exists>pre post. apiPath = pre @ ''/ferries/'' @ post)"
    by (rule includes_str_iff)
  show ?thesis
    unfolding buildUrl_def getApiKeyParam_def Let_def sep wsf by simp
qed

text \<open>
  C7, as the code has it. A failure of the interpolation leaves the endpoint function
  as an exception thrown by the call, with the client not called and the network state
  as it was. Otherwise the function returns the promise of the client as it is, a
  rejected one included.
\<close>

theorem createFetch_error_propagation:
  "(interpolateParams endpointTemplate params = Inl e \<longrightarrow>
      createFetch fetchFn cfg apiPath endpointTemplate params logMode net = (Throw e, net)) \<and>
   (interpolateParams endpointTemplate params = Inr endpoint \<and>
    fetchFn (buildUrl cfg apiPath endpoint) logMode net = (p, net') \<longrightarrow>
      createFetch fetchFn cfg apiPath endpointTemplate params logMode net = (Return p, net'))"
  by (simp add: createFetch_def)

text \<open>
  C7 at a parameter without a placeholder, and at a client that rejects.
\<close>

theorem createFetch_error_propagation_witness:
  "createFetch (recordingClient None) \<lparr>baseUrl = ''https://www.wsdot.wa.gov'', apiKey = ''KEY''\<rparr>
     ''/ferries/api/schedule/rest'' ''/cacheflushdate'' (Some [(''id'', JNumber 1)]) None [] =
     (Throw (Error (mismatchMessage ''id'' ''/cacheflushdate'')), []) \<and>
   createFetch (recordingClient (Some (Error ''HTTP 500'')))
     \<lparr>baseUrl = ''https://www.wsdot.wa.gov'', apiKey = ''KEY''\<rparr>
     ''/ferries/api/schedule/rest'' ''/sailings/{schedRouteId}'' (Some [(''schedRouteId'', JNumber 7)]) None [] =
     (Return (Rejected (Error ''HTTP 500'')),
      [''https://www.wsdot.wa.gov/ferries/api/schedule/rest/sailings/7?apiaccesscode=KEY''])"
proof -
  have a: "interpolateParams ''/cacheflushdate'' (Some [(''id'', JNumber 1)]) =
             Inl (Error (mismatchMessage ''id'' ''/cacheflushdate''))"
    by (simp add: interpolateParams_def includes_str_def placeholder_def)
  have b: "interpolateParams ''/sailings/{schedRouteId}'' (Some [(''schedRouteId'', JNumber 7)]) =
             Inr ''/sailings/7''"
    by code_simp
  have c: "recordingClient (Some (Error ''HTTP 500''))
             (buildUrl \<lparr>baseUrl = ''https://www.wsdot.wa.gov'', apiKey = ''KEY''\<rparr>
                ''/ferries/api/schedule/rest'' ''/sailings/7'') None [] =
           (Rejected (Error ''HTTP 500''),
            [''https://www.wsdot.wa.gov/ferries/api/schedule/rest/sailings/7?apiaccesscode=KEY''])"
    by code_simp
  show ?thesis
    using createFetch_error_propagation
      [of "''/cacheflushdate''" "Some [(''id'', JNumber 1)]" "Error (mismatchMessage ''id'' ''/cacheflushdate'')"
          "recordingClient None" "\<lparr>baseUrl = ''https://www.wsdot.wa.gov'', apiKey = ''KEY''\<rparr>"
          "''/ferries/api/schedule/rest''" None "[]"]
      createFetch_error_propagation
      [of "''/sailings/{schedRouteId}''" "Some [(''schedRouteId'', JNumber 7)]" _
          "recordingClient (Some (Error ''HTTP 500''))"
          "\<lparr>baseUrl = ''https://www.wsdot.wa.gov'', apiKey = ''KEY''\<rparr>"
          "''/ferries/api/schedule/rest''" None "[]" "''/sailings/7''"]
      a b c
    by simp
qed

text \<open>
  C7 as stated fails: the failure of the interpolation is thrown by the call; no
  rejected promise is returned.
\<close>

theorem createFetch_throws_counterexample:
  "fst (createFetch (recordingClient None) \<lparr>baseUrl = ''https://www.wsdot.wa.gov'', apiKey = ''KEY''\<rparr>
     ''/ferries/api/schedule/rest'' ''/cacheflushdate'' (Some [(''id'', JNumber 1)]) None []) =
     Throw (Error (mismatchMessage ''id'' ''/cacheflushdate'')) \<and>
   \<not> (\<exists>e. fst (createFetch (recordingClient None) \<lparr>baseUrl = ''https://www.wsdot.wa.gov'', apiKey = ''KEY''\<rparr>
     ''/ferries/api/schedule/rest'' ''/cacheflushdate'' (Some [(''id'', JNumber 1)]) None []) =
     Return (Rejected e))"
proof -
  have a: "interpolateParams ''/cacheflushdate'' (Some [(''id'', JNumber 1)]) =
             Inl (Error (mismatchMessage ''id'' ''/cacheflushdate''))"
    by (simp add: interpolateParams_def includes_str_def placeholder_def)
  show ?thesis by (simp add: createFetch_def a)
qed




text \<open>
  C9. For every template, interpolation with an absent parameter object and with an
  empty one returns the template unchanged.
\<close>

theorem interpolateParams_absent_or_empty:
  "interpolateParams template None = Inr template \<and>
   interpolateParams template (Some []) = Inr template"
  by (simp add: interpolateParams_def)

text \<open>
  C10. The entries are folded from left to right over the string reached so far. On
  \<^verbatim>\<open>/{a}/{b}\<close> with \<^verbatim>\<open>a\<close> given \<^verbatim>\<open>{b}\<close> before \<^verbatim>\<open>b\<close> given \<^verbatim>\<open>X\<close>, the \<^verbatim>\<open>{b}\<close> replaced
  is at position 1, where the value of \<^verbatim>\<open>a\<close> was put; the \<^verbatim>\<open>{b}\<close> of the template, at
  position 5, stays.
\<close>

theorem interpolateParams_folds_partial:
  "interpolateParams template (Some entries) = reduce entries template \<and>
   reduce (before @ [entry]) template =
     (case reduce before template of
        Inl e \<Rightarrow> Inl e
      | Inr endpoint \<Rightarrow> substituteParam endpoint entry) \<and>
   indexOf ''/{a}/{b}'' (placeholder ''a'') = Some 1 \<and>
   indexOf ''/{a}/{b}'' (placeholder ''b'') = Some 5 \<and>
   reduce [(''a'', JString ''{b}'')] ''/{a}/{b}'' = Inr ''/{b}/{b}'' \<and>
   indexOf ''/{b}/{b}'' (placeholder ''b'') = Some 1 \<and>
   interpolateParams ''/{a}/{b}'' (Some [(''a'', JString ''{b}''), (''b'', JString ''X'')]) =
     Inr ''/X/{b}'' \<and>
   substituteParam ''/{a}/{b}'' (''b'', JString ''X'') = Inr ''/{a}/X''"
proof -
  have a: "interpolateParams template (Some entries) = reduce entries template"
    by (cases entries) (simp_all add: interpolateParams_def)
  have b: "reduce (before @ [entry]) template =
     (case reduce before template of
        Inl e \<Rightarrow> Inl e
      | Inr endpoint \<Rightarrow> substituteParam endpoint entry)"
    by (simp add: reduce_append split: sum.splits)
  have c: "indexOf ''/{a}/{b}'' (placeholder ''a'') = Some 1 \<and>
   indexOf ''/{a}/{b}'' (placeholder ''b'') = Some 5 \<and>
   reduce [(''a'', JString ''{b}'')] ''/{a}/{b}'' = Inr ''/{b}/{b}'' \<and>
   indexOf ''/{b}/{b}'' (placeholder ''b'') = Some 1 \<and>
   interpolateParams ''/{a}/{b}'' (Some [(''a'', JString ''{b}''), (''b'', JString ''X'')]) =
     Inr ''/X/{b}'' \<and>
   substituteParam ''/{a}/{b}'' (''b'', JString ''X'') = Inr ''/{a}/X''"
    by code_simp
  show ?thesis using a b c by blast
qed

end
